theory Spec2Isabelle
  imports Main "HOL-Library.Word"
begin

section \<open>Data model of the RGB indicator driver\<close>

text \<open>
  The driver (\<^verbatim>\<open>rgb-indicator.c\<close>, \<^verbatim>\<open>rgb-indicator.h\<close>) controls a TI LP5817 over
  I2C and sequences flash patterns with a one-shot kernel timer and a work item.
  Every C function is embedded as a HOL function on explicit state:
  \<^item> the I2C endpoint (\<^verbatim>\<open>struct i2c_dt_spec\<close>) is a record holding the readiness of the
    bus, the return code the bus gives to each transaction, and the list of
    transactions issued so far, oldest first;
  \<^item> \<^verbatim>\<open>rgb_indicator_t\<close> is a record with the fields of the C struct; the pointer
    \<^verbatim>\<open>rgbdev\<close> is modelled by the endpoint it points to (the indicator is the only
    user of the endpoint once it is bound);
  \<^item> \<^verbatim>\<open>struct k_timer\<close> is \<open>None\<close> when stopped and \<open>Some d\<close> when running with
    duration \<open>d\<close> (the period is always \<^verbatim>\<open>K_NO_WAIT\<close>, so the timer is one-shot);
    \<^verbatim>\<open>struct k_work\<close> is the flag "submitted and not yet executed";
  \<^item> \<^verbatim>\<open>uint8_t\<close> is \<open>8 word\<close>; the C \<^verbatim>\<open>int\<close> return codes are \<open>int\<close> (they are 0 or a
    small negative errno, and are only compared with 0 and added three at a time);
    \<^verbatim>\<open>k_timeout_t\<close> is a record with the signed field \<open>ticks\<close>;
  \<^item> \<^verbatim>\<open>LOG_ERR\<close> only emits text and is left out; the return codes that feed it are
    still computed where the source computes them.
  Each function body runs atomically: the facade runs on the caller's thread, the
  handler on the system work queue, and the model interleaves whole calls.
\<close>

type_synonym u8 = "8 word"

record k_timeout_t =
  ticks :: int

definition K_NO_WAIT :: k_timeout_t where
  "K_NO_WAIT = \<lparr>ticks = 0\<rparr>"

definition K_FOREVER :: k_timeout_t where
  "K_FOREVER = \<lparr>ticks = - 1\<rparr>"

definition K_TIMEOUT_EQ :: "k_timeout_t \<Rightarrow> k_timeout_t \<Rightarrow> bool" where
  "K_TIMEOUT_EQ a b = (ticks a = ticks b)"

record led_rgb =
  r :: u8
  g :: u8
  b :: u8

record i2c_dt_spec =
  ready :: bool
  resp :: "nat \<Rightarrow> u8 list \<Rightarrow> int"
  writes :: "u8 list list"

record rgb_indicator =
  rgbdev :: i2c_dt_spec
  brightness :: u8
  pixels :: led_rgb
  flashesAsked :: u8
  flashesPerformed :: u8
  onDuration :: k_timeout_t
  offDuration :: k_timeout_t
  flashTimer :: "k_timeout_t option"
  flashState :: u8
  flashWork :: bool

subsection \<open>Register map (\<^verbatim>\<open>rgb-indicator.h\<close>)\<close>

abbreviation (input) LP5817_REG_CHIPENABLE :: u8 where "LP5817_REG_CHIPENABLE \<equiv> 0x00"
abbreviation (input) LP5817_REG_MAXCURRENT :: u8 where "LP5817_REG_MAXCURRENT \<equiv> 0x01"
abbreviation (input) LP5817_REG_OUTENABLE :: u8 where "LP5817_REG_OUTENABLE \<equiv> 0x02"
abbreviation (input) LP5817_REG_DOTCURRENT_0 :: u8 where "LP5817_REG_DOTCURRENT_0 \<equiv> 0x14"
abbreviation (input) LP5817_REG_UPDATE :: u8 where "LP5817_REG_UPDATE \<equiv> 0x0f"
abbreviation (input) LP5817_REG_INTENSITY0 :: u8 where "LP5817_REG_INTENSITY0 \<equiv> 0x18"
abbreviation (input) LP5817_REG_INTENSITY1 :: u8 where "LP5817_REG_INTENSITY1 \<equiv> 0x19"
abbreviation (input) LP5817_REG_INTENSITY2 :: u8 where "LP5817_REG_INTENSITY2 \<equiv> 0x1a"
abbreviation (input) LP5817_CMD_CHIPENABLE :: u8 where "LP5817_CMD_CHIPENABLE \<equiv> 0x01"
abbreviation (input) LP5817_CMD_MAXCURRENT :: u8 where "LP5817_CMD_MAXCURRENT \<equiv> 0x01"
abbreviation (input) LP5817_CMD_OUTENABLE :: u8 where "LP5817_CMD_OUTENABLE \<equiv> 0x07"
abbreviation (input) LP5817_CMD_UPDATE :: u8 where "LP5817_CMD_UPDATE \<equiv> 0x55"

definition dot_current :: "u8 list" where
  "dot_current = [128, 128, 128]"

subsection \<open>Kernel services used by the driver\<close>

text \<open>
  \<^verbatim>\<open>device_is_ready\<close> reads the readiness flag. \<^verbatim>\<open>i2c_write_dt\<close> issues one
  transaction with the given bytes: the transaction is appended to \<open>writes\<close> whether it
  succeeds or not, and the return code is what the bus answers to the transaction with
  that position and payload (0 for success).
\<close>

definition device_is_ready :: "i2c_dt_spec \<Rightarrow> bool" where
  "device_is_ready dev = ready dev"

definition i2c_write_dt :: "i2c_dt_spec \<Rightarrow> u8 list \<Rightarrow> int \<times> i2c_dt_spec" where
  "i2c_write_dt dev buf =
     (resp dev (length (writes dev)) buf, dev\<lparr>writes := writes dev @ [buf]\<rparr>)"

text \<open>
  \<^verbatim>\<open>k_timer_start(t, d, K_NO_WAIT)\<close> returns at once when \<open>d\<close> is \<^verbatim>\<open>K_FOREVER\<close>,
  leaving the timer as it is; otherwise it (re)starts the one-shot timer with duration
  \<open>d\<close>. \<^verbatim>\<open>k_timer_stop\<close> stops it, \<^verbatim>\<open>k_timer_init\<close> leaves it stopped.
  \<^verbatim>\<open>k_work_submit\<close> marks the work item pending (submitting a pending item changes
  nothing), \<^verbatim>\<open>k_work_init\<close> leaves it idle. The duration only labels the running
  timer: when it expires is decided by the schedule of kernel events below.
\<close>

definition k_timer_init :: "rgb_indicator \<Rightarrow> rgb_indicator" where
  "k_timer_init rgbi = rgbi\<lparr>flashTimer := None\<rparr>"

definition k_timer_start :: "rgb_indicator \<Rightarrow> k_timeout_t \<Rightarrow> rgb_indicator" where
  "k_timer_start rgbi duration =
     (if K_TIMEOUT_EQ duration K_FOREVER then rgbi
      else rgbi\<lparr>flashTimer := Some duration\<rparr>)"

definition k_timer_stop :: "rgb_indicator \<Rightarrow> rgb_indicator" where
  "k_timer_stop rgbi = rgbi\<lparr>flashTimer := None\<rparr>"

definition k_work_init :: "rgb_indicator \<Rightarrow> rgb_indicator" where
  "k_work_init rgbi = rgbi\<lparr>flashWork := False\<rparr>"

definition k_work_submit :: "rgb_indicator \<Rightarrow> rgb_indicator" where
  "k_work_submit rgbi = rgbi\<lparr>flashWork := True\<rparr>"

section \<open>Private service functions\<close>

text \<open>
  \<^verbatim>\<open>lp5817_setColor\<close>: three transactions; \<open>ret\<close> is overwritten by each and only
  feeds the log message.
\<close>

definition lp5817_setColor :: "i2c_dt_spec \<Rightarrow> u8 \<Rightarrow> u8 \<Rightarrow> u8 \<Rightarrow> i2c_dt_spec" where
  "lp5817_setColor rgb_ctrllr red green blue =
     (let (ret, rgb_ctrllr) = i2c_write_dt rgb_ctrllr [LP5817_REG_INTENSITY2, red];
          (ret, rgb_ctrllr) = i2c_write_dt rgb_ctrllr [LP5817_REG_INTENSITY0, green];
          (ret, rgb_ctrllr) = i2c_write_dt rgb_ctrllr [LP5817_REG_INTENSITY1, blue]
      in rgb_ctrllr)"

text \<open>
  The loop \<^verbatim>\<open>for (size_t i = 0; i < 3; i++)\<close> of \<^verbatim>\<open>lp5817_init\<close>, with the running
  sum \<open>ret\<close>; \<^verbatim>\<open>cmd[0]\<close> is a \<^verbatim>\<open>uint8_t\<close>, so the register number is truncated to 8 bits.
\<close>

function dot_current_loop :: "nat \<Rightarrow> int \<Rightarrow> i2c_dt_spec \<Rightarrow> int \<times> i2c_dt_spec" where
  "dot_current_loop i ret rgb_ctrllr =
     (if i < 3 then
        (let (rc, rgb_ctrllr) =
               i2c_write_dt rgb_ctrllr [LP5817_REG_DOTCURRENT_0 + of_nat i, dot_current ! i]
         in dot_current_loop (i + 1) (ret + rc) rgb_ctrllr)
      else (ret, rgb_ctrllr))"
  by pat_completeness auto
termination
  by (relation "measure (\<lambda>(i, ret, rgb_ctrllr). 3 - i)") auto

declare dot_current_loop.simps [simp del]

definition lp5817_init :: "i2c_dt_spec \<Rightarrow> int \<times> i2c_dt_spec" where
  "lp5817_init rgb_ctrllr =
     (if \<not> device_is_ready rgb_ctrllr then (0, rgb_ctrllr)
      else
        (let (ret, rgb_ctrllr) =
               i2c_write_dt rgb_ctrllr [LP5817_REG_CHIPENABLE, LP5817_CMD_CHIPENABLE];
             (ret, rgb_ctrllr) =
               i2c_write_dt rgb_ctrllr [LP5817_REG_MAXCURRENT, LP5817_CMD_MAXCURRENT];
             ret = 0;
             (ret, rgb_ctrllr) = dot_current_loop 0 ret rgb_ctrllr;
             (ret, rgb_ctrllr) =
               i2c_write_dt rgb_ctrllr [LP5817_REG_OUTENABLE, LP5817_CMD_OUTENABLE];
             rgb_ctrllr = lp5817_setColor rgb_ctrllr 0 0 0;
             (ret, rgb_ctrllr) =
               i2c_write_dt rgb_ctrllr [LP5817_REG_UPDATE, LP5817_CMD_UPDATE]
         in (ret, rgb_ctrllr)))"

definition isFlashing :: "rgb_indicator \<Rightarrow> bool" where
  "isFlashing rgbi = (ticks (onDuration rgbi) > 0)"

section \<open>Public API\<close>

definition rgbi_setColor :: "rgb_indicator \<Rightarrow> led_rgb \<Rightarrow> rgb_indicator" where
  "rgbi_setColor rgbi channels =
     rgbi\<lparr>rgbdev := lp5817_setColor (rgbdev rgbi) (r channels) (g channels) (b channels)\<rparr>"

definition rgbi_setColorFromPixels :: "rgb_indicator \<Rightarrow> u8 \<Rightarrow> u8 \<Rightarrow> u8 \<Rightarrow> rgb_indicator" where
  "rgbi_setColorFromPixels rgbi red green blue =
     rgbi\<lparr>rgbdev := lp5817_setColor (rgbdev rgbi) red green blue\<rparr>"

definition rgbi_off :: "rgb_indicator \<Rightarrow> rgb_indicator" where
  "rgbi_off rgbi =
     (if \<not> isFlashing rgbi then rgbi_setColorFromPixels rgbi 0 0 0 else rgbi)"

definition rgbi_flash ::
  "rgb_indicator \<Rightarrow> led_rgb \<Rightarrow> k_timeout_t \<Rightarrow> k_timeout_t \<Rightarrow> u8 \<Rightarrow> rgb_indicator" where
  "rgbi_flash rgbi px onDur offDur count =
     (let rgbi = rgbi\<lparr>onDuration := onDur\<rparr>;
          rgbi = rgbi\<lparr>offDuration := offDur\<rparr>;
          rgbi = rgbi\<lparr>flashesAsked := count\<rparr>;
          rgbi = rgbi\<lparr>flashesPerformed := 0\<rparr>;
          rgbi = rgbi\<lparr>pixels := px\<rparr>;
          rgbi = rgbi_setColor rgbi px;
          rgbi = k_timer_start rgbi (onDuration rgbi)
      in rgbi\<lparr>flashState := 1\<rparr>)"

definition rgbi_isBusy :: "rgb_indicator \<Rightarrow> bool" where
  "rgbi_isBusy rgbi = isFlashing rgbi"

definition rgbi_cancel :: "rgb_indicator \<Rightarrow> rgb_indicator" where
  "rgbi_cancel rgbi =
     (let rgbi = k_timer_stop rgbi;
          rgbi = rgbi\<lparr>onDuration := K_NO_WAIT\<rparr>
      in rgbi_off rgbi)"

text \<open>
  \<^verbatim>\<open>rgbi_init\<close> gets the endpoint and the indicator; it returns the result code, the
  endpoint after the bring-up and the indicator.
\<close>

definition rgbi_init :: "i2c_dt_spec \<Rightarrow> rgb_indicator \<Rightarrow> int \<times> i2c_dt_spec \<times> rgb_indicator" where
  "rgbi_init rgb_dev rgbi =
     (let ret = - 1;
          (rc, rgb_dev) = lp5817_init rgb_dev
      in if rc = 0 then
           (let ret = 0;
                rgbi = rgbi\<lparr>rgbdev := rgb_dev\<rparr>;
                rgbi = k_timer_init rgbi;
                rgbi = k_work_init rgbi
            in (ret, rgb_dev, rgbi))
         else (ret, rgb_dev, rgbi))"

section \<open>Timer expiry and the work handler\<close>

definition flashTimerExpiry :: "rgb_indicator \<Rightarrow> rgb_indicator" where
  "flashTimerExpiry rgbi = k_work_submit rgbi"

definition flashDisplay_handler :: "rgb_indicator \<Rightarrow> rgb_indicator" where
  "flashDisplay_handler rgbi =
     (if ticks (onDuration rgbi) > 0 then
        (if flashState rgbi \<noteq> 0 then
           (let rgbi = rgbi_setColorFromPixels rgbi 0 0 0;
                rgbi = rgbi\<lparr>flashState := 0\<rparr>;
                rgbi = rgbi\<lparr>flashesPerformed := flashesPerformed rgbi + 1\<rparr>
            in if flashesPerformed rgbi < flashesAsked rgbi \<or> flashesAsked rgbi = 0
               then k_timer_start rgbi (offDuration rgbi)
               else (let rgbi = rgbi\<lparr>flashesAsked := 0\<rparr>;
                         rgbi = rgbi\<lparr>flashesPerformed := 0\<rparr>
                     in rgbi\<lparr>onDuration := K_NO_WAIT\<rparr>))
         else
           (let rgbi = rgbi\<lparr>flashState := 1\<rparr>
            in if flashesPerformed rgbi < flashesAsked rgbi
               then (let rgbi = rgbi_setColor rgbi (pixels rgbi)
                     in k_timer_start rgbi (onDuration rgbi))
               else rgbi))
      else rgbi)"

text \<open>
  What the kernel does between facade calls. A running timer may expire: being
  one-shot it is then stopped and its expiry function runs. A pending work item may be
  executed: it is taken off the queue and its handler runs. An event that is not
  enabled changes nothing. \<open>run\<close> plays a schedule of events; \<open>cycles n\<close> is the
  schedule of \<open>n\<close> timer expiries, each followed by the execution of the work item.
\<close>

datatype event = TimerExpires | WorkRuns

fun fire :: "event \<Rightarrow> rgb_indicator \<Rightarrow> rgb_indicator" where
  "fire TimerExpires rgbi =
     (case flashTimer rgbi of
        None \<Rightarrow> rgbi
      | Some d \<Rightarrow> flashTimerExpiry (rgbi\<lparr>flashTimer := None\<rparr>))"
| "fire WorkRuns rgbi =
     (if flashWork rgbi then flashDisplay_handler (rgbi\<lparr>flashWork := False\<rparr>) else rgbi)"

fun run :: "event list \<Rightarrow> rgb_indicator \<Rightarrow> rgb_indicator" where
  "run [] rgbi = rgbi"
| "run (e # es) rgbi = run es (fire e rgbi)"

fun cycles :: "nat \<Rightarrow> event list" where
  "cycles 0 = []"
| "cycles (Suc n) = TimerExpires # WorkRuns # cycles n"

section \<open>Vocabulary of the statements\<close>

text \<open>
  The three transactions of one colour write, and the six of one pulse (the colour,
  then all channels at zero).
\<close>

abbreviation (input) color_cmds :: "u8 \<Rightarrow> u8 \<Rightarrow> u8 \<Rightarrow> u8 list list" where
  "color_cmds red green blue \<equiv> [[0x1a, red], [0x18, green], [0x19, blue]]"

abbreviation (input) pulse_cmds :: "led_rgb \<Rightarrow> u8 list list" where
  "pulse_cmds px \<equiv> color_cmds (r px) (g px) (b px) @ color_cmds 0 0 0"

text \<open>
  The states of a counted sequence of \<open>n\<close> pulses of colour \<open>px\<close> started when the
  endpoint had seen the transactions \<open>w0\<close>: while the sequence is active the counter
  is below \<open>n\<close> and the transactions are \<open>w0\<close>, one pulse per completed flash, and
  the colour if the indicator is on; once idle they are \<open>w0\<close> and \<open>n\<close> pulses.
\<close>

definition flash_inv :: "u8 list list \<Rightarrow> led_rgb \<Rightarrow> u8 \<Rightarrow> rgb_indicator \<Rightarrow> bool" where
  "flash_inv w0 px n s =
     (pixels s = px \<and>
      (if 0 < ticks (onDuration s) then
         flashesAsked s = n \<and> unat (flashesPerformed s) < unat n \<and>
         (if flashState s \<noteq> 0
          then writes (rgbdev s) =
                 w0 @ concat (replicate (unat (flashesPerformed s)) (pulse_cmds px)) @
                 color_cmds (r px) (g px) (b px)
          else writes (rgbdev s) =
                 w0 @ concat (replicate (unat (flashesPerformed s)) (pulse_cmds px)))
       else writes (rgbdev s) = w0 @ concat (replicate (unat n) (pulse_cmds px))))"

text \<open>
  Concrete inputs: an endpoint that is ready and acknowledges every transaction, one
  whose bus is not ready, one that is ready but answers \<^verbatim>\<open>-EIO\<close> (-5) to the first
  transaction only; a fresh indicator; two colours of the demo program; \<open>K_TICKS\<close>,
  the kernel's timeout of a number of ticks.
\<close>

definition good_dev :: i2c_dt_spec where
  "good_dev = \<lparr>ready = True, resp = (\<lambda>k buf. 0), writes = []\<rparr>"

definition down_dev :: i2c_dt_spec where
  "down_dev = \<lparr>ready = False, resp = (\<lambda>k buf. 0), writes = []\<rparr>"

definition flaky_dev :: i2c_dt_spec where
  "flaky_dev = \<lparr>ready = True, resp = (\<lambda>k buf. if k = 0 then - 5 else 0), writes = []\<rparr>"

definition LED_RED :: led_rgb where
  "LED_RED = \<lparr>r = 100, g = 0, b = 0\<rparr>"

definition LED_GREEN :: led_rgb where
  "LED_GREEN = \<lparr>r = 0, g = 100, b = 0\<rparr>"

definition fresh_rgbi :: rgb_indicator where
  "fresh_rgbi =
     \<lparr>rgbdev = good_dev, brightness = 0, pixels = \<lparr>r = 0, g = 0, b = 0\<rparr>,
      flashesAsked = 0, flashesPerformed = 0, onDuration = K_NO_WAIT,
      offDuration = K_NO_WAIT, flashTimer = None, flashState = 0, flashWork = False\<rparr>"

definition K_TICKS :: "int \<Rightarrow> k_timeout_t" where
  "K_TICKS t = \<lparr>ticks = t\<rparr>"

lemmas example_defs =
  good_dev_def down_dev_def flaky_dev_def LED_RED_def LED_GREEN_def fresh_rgbi_def K_TICKS_def

section \<open>Bus transactions of the service functions\<close>

lemma lp5817_setColor_eq:
  "lp5817_setColor dev red green blue =
     dev\<lparr>writes := writes dev @ color_cmds red green blue\<rparr>"
  by (simp add: lp5817_setColor_def i2c_write_dt_def)

lemma dot_current_loop_eq:
  "dot_current_loop 0 0 dev =
     (resp dev (length (writes dev)) [0x14, 128]
        + resp dev (Suc (length (writes dev))) [0x15, 128]
        + resp dev (Suc (Suc (length (writes dev)))) [0x16, 128],
      dev\<lparr>writes := writes dev @ [[0x14, 128], [0x15, 128], [0x16, 128]]\<rparr>)"
  by (simp add: dot_current_loop.simps [of 0] dot_current_loop.simps [of "Suc 0"]
      dot_current_loop.simps [of "Suc (Suc 0)"] dot_current_loop.simps [of "Suc (Suc (Suc 0))"]
      i2c_write_dt_def dot_current_def eval_nat_numeral)

text \<open>The result of the bring-up on a ready bus is the return code of its last transaction.\<close>

lemma lp5817_init_ready:
  "ready dev \<Longrightarrow> lp5817_init dev =
     (resp dev (length (writes dev) + 9) [0x0f, 0x55],
      dev\<lparr>writes := writes dev @
        [[0x00, 0x01], [0x01, 0x01], [0x14, 128], [0x15, 128], [0x16, 128], [0x02, 0x07],
         [0x1a, 0], [0x18, 0], [0x19, 0], [0x0f, 0x55]]\<rparr>)"
  by (simp add: lp5817_init_def device_is_ready_def dot_current_loop_eq lp5817_setColor_eq
      i2c_write_dt_def eval_nat_numeral)

lemma lp5817_init_not_ready: "\<not> ready dev \<Longrightarrow> lp5817_init dev = (0, dev)"
  by (simp add: lp5817_init_def device_is_ready_def)

lemma rgbi_cancel_eq:
  "rgbi_cancel rgbi =
     rgbi\<lparr>flashTimer := None, onDuration := K_NO_WAIT,
       rgbdev := lp5817_setColor (rgbdev rgbi) 0 0 0\<rparr>"
  by (simp add: rgbi_cancel_def rgbi_off_def isFlashing_def rgbi_setColorFromPixels_def
      k_timer_stop_def K_NO_WAIT_def)

text \<open>The timer after a start: untouched for \<^verbatim>\<open>K_FOREVER\<close>, running otherwise.\<close>

lemma k_timer_start_eq:
  "k_timer_start s d =
     s\<lparr>flashTimer := (if ticks d = - 1 then flashTimer s else Some d)\<rparr>"
  by (simp add: k_timer_start_def K_TIMEOUT_EQ_def K_FOREVER_def)

lemma rgbi_flash_eq:
  "rgbi_flash rgbi px onDur offDur count =
     rgbi\<lparr>onDuration := onDur, offDuration := offDur, flashesAsked := count,
       flashesPerformed := 0, pixels := px,
       rgbdev := lp5817_setColor (rgbdev rgbi) (r px) (g px) (b px),
       flashTimer := (if ticks onDur = - 1 then flashTimer rgbi else Some onDur),
       flashState := 1\<rparr>"
  by (simp add: rgbi_flash_def rgbi_setColor_def k_timer_start_eq)

section \<open>The four outcomes of the work handler\<close>

lemma handler_idle: "\<not> isFlashing rgbi \<Longrightarrow> flashDisplay_handler rgbi = rgbi"
  by (simp add: flashDisplay_handler_def isFlashing_def)

lemma handler_on_more:
  "0 < ticks (onDuration s) \<Longrightarrow> flashState s \<noteq> 0 \<Longrightarrow>
   flashesPerformed s + 1 < flashesAsked s \<or> flashesAsked s = 0 \<Longrightarrow>
   flashDisplay_handler s =
     s\<lparr>rgbdev := lp5817_setColor (rgbdev s) 0 0 0, flashState := 0,
       flashesPerformed := flashesPerformed s + 1,
       flashTimer := (if ticks (offDuration s) = - 1 then flashTimer s
                      else Some (offDuration s))\<rparr>"
  by (simp add: flashDisplay_handler_def rgbi_setColorFromPixels_def k_timer_start_eq)

lemma handler_on_last:
  "0 < ticks (onDuration s) \<Longrightarrow> flashState s \<noteq> 0 \<Longrightarrow>
   \<not> flashesPerformed s + 1 < flashesAsked s \<Longrightarrow> flashesAsked s \<noteq> 0 \<Longrightarrow>
   flashDisplay_handler s =
     s\<lparr>rgbdev := lp5817_setColor (rgbdev s) 0 0 0, flashState := 0,
       flashesPerformed := 0, flashesAsked := 0, onDuration := K_NO_WAIT\<rparr>"
  by (simp add: flashDisplay_handler_def rgbi_setColorFromPixels_def)

lemma handler_off_more:
  "0 < ticks (onDuration s) \<Longrightarrow> flashState s = 0 \<Longrightarrow>
   flashesPerformed s < flashesAsked s \<Longrightarrow>
   flashDisplay_handler s =
     s\<lparr>flashState := 1,
       rgbdev := lp5817_setColor (rgbdev s) (r (pixels s)) (g (pixels s)) (b (pixels s)),
       flashTimer := Some (onDuration s)\<rparr>"
  by (simp add: flashDisplay_handler_def rgbi_setColor_def k_timer_start_eq)

lemma handler_off_continuous:
  "flashesAsked s = 0 \<Longrightarrow> flashState s = 0 \<Longrightarrow>
   flashDisplay_handler s = s \<or> flashDisplay_handler s = s\<lparr>flashState := 1\<rparr>"
  by (simp add: flashDisplay_handler_def)

section \<open>Schedules\<close>

lemma run_quiet: "flashTimer s = None \<Longrightarrow> \<not> flashWork s \<Longrightarrow> run es s = s"
proof (induction es)
  case Nil
  show ?case by simp
next
  case (Cons e es)
  then have "fire e s = s" by (cases e) simp_all
  with Cons show ?case by simp
qed

lemma fire_idle:
  "\<not> isFlashing s \<Longrightarrow> flashTimer s = None \<Longrightarrow>
   fire e s = s \<or> fire e s = s\<lparr>flashWork := False\<rparr>"
  by (cases e) (simp_all add: handler_idle isFlashing_def)

lemma run_idle:
  "\<not> isFlashing s \<Longrightarrow> flashTimer s = None \<Longrightarrow>
   run es s = s \<or> run es s = s\<lparr>flashWork := False\<rparr>"
proof (induction es arbitrary: s)
  case Nil
  then show ?case by simp
next
  case (Cons e es)
  let ?s' = "s\<lparr>flashWork := False\<rparr>"
  have "\<not> isFlashing ?s'" "flashTimer ?s' = None"
    using Cons.prems by (simp_all add: isFlashing_def)
  from Cons.IH [OF this] Cons.IH [OF Cons.prems] fire_idle [OF Cons.prems, of e]
  show ?case by auto
qed

lemma cycle_fires:
  "flashTimer s \<noteq> None \<Longrightarrow>
   run (cycles (Suc n)) s =
     run (cycles n) (flashDisplay_handler (s\<lparr>flashTimer := None, flashWork := False\<rparr>))"
  by (auto simp: flashTimerExpiry_def k_work_submit_def)

section \<open>Counted sequences\<close>

lemma u8_succ_less:
  fixes p n :: u8
  assumes "unat p + Suc m = unat n"
  shows "unat (p + 1) = Suc (unat p)" and "p + 1 < n \<longleftrightarrow> 0 < m" and "n \<noteq> 0"
proof -
  have "unat n < 256" using unsigned_less [of n] by simp
  with assms have "unat p + 1 < 256" by simp
  then show *: "unat (p + 1) = Suc (unat p)"
    by (simp add: unat_word_ariths)
  show "p + 1 < n \<longleftrightarrow> 0 < m"
    using assms * by (auto simp: word_less_nat_alt)
  show "n \<noteq> 0" using assms by (auto simp: unat_eq_0 [symmetric] simp del: unat_eq_0)
qed

lemma u8_succ_cases:
  fixes p n :: u8
  assumes "unat p < unat n"
  shows "p + 1 < n \<and> unat (p + 1) = Suc (unat p) \<or>
         \<not> p + 1 < n \<and> Suc (unat p) = unat n \<and> n \<noteq> 0"
proof -
  obtain m where m: "unat p + Suc m = unat n"
    using assms less_imp_Suc_add by (metis add_Suc_right)
  from u8_succ_less [OF m] m show ?thesis by (cases m) auto
qed

lemma concat_replicate_snoc: "concat (replicate j xs) @ xs = xs @ concat (replicate j xs)"
  by (induction j) simp_all

text \<open>
  From the on phase with \<open>m + 1\<close> flashes left, \<open>2 m + 1\<close> expiries finish the
  sequence, provided the off-duration starts the timer when a further flash is due:
  induction on \<open>m\<close>, two expiries (off, on) per step.
\<close>

lemma on_phase_run:
  "0 < ticks (onDuration s) \<Longrightarrow> flashState s \<noteq> 0 \<Longrightarrow> flashTimer s \<noteq> None \<Longrightarrow>
   unat (flashesPerformed s) + Suc m = unat (flashesAsked s) \<Longrightarrow>
   m = 0 \<or> ticks (offDuration s) \<noteq> - 1 \<Longrightarrow>
   (let t = run (cycles (2 * m + 1)) s in
      writes (rgbdev t) =
        writes (rgbdev s) @ color_cmds 0 0 0 @ concat (replicate m (pulse_cmds (pixels s))) \<and>
      flashesAsked t = 0 \<and> flashesPerformed t = 0 \<and> onDuration t = K_NO_WAIT \<and>
      flashTimer t = None \<and> \<not> flashWork t)"
proof (induction m arbitrary: s)
  case 0
  let ?s = "s\<lparr>flashTimer := None, flashWork := False\<rparr>"
  have "\<not> flashesPerformed ?s + 1 < flashesAsked ?s" "flashesAsked ?s \<noteq> 0"
    using u8_succ_less [OF "0.prems"(4)] by simp_all
  then have "flashDisplay_handler ?s =
      ?s\<lparr>rgbdev := lp5817_setColor (rgbdev ?s) 0 0 0, flashState := 0,
        flashesPerformed := 0, flashesAsked := 0, onDuration := K_NO_WAIT\<rparr>"
    using "0.prems"(1,2) by (intro handler_on_last) simp_all
  moreover have "run (cycles (2 * 0 + 1)) s = flashDisplay_handler ?s"
    using cycle_fires [OF "0.prems"(3), of 0] by simp
  ultimately show ?case
    by (simp add: Let_def lp5817_setColor_eq)
next
  case (Suc m)
  let ?s = "s\<lparr>flashTimer := None, flashWork := False\<rparr>"
  let ?px = "pixels s"
  have more: "flashesPerformed ?s + 1 < flashesAsked ?s"
    and un: "unat (flashesPerformed s + 1) = Suc (unat (flashesPerformed s))"
    using u8_succ_less [OF Suc.prems(4)] by simp_all
  have off: "ticks (offDuration s) \<noteq> - 1" using Suc.prems(5) by simp
  define s1 where "s1 = flashDisplay_handler ?s"
  have s1: "s1 = ?s\<lparr>rgbdev := lp5817_setColor (rgbdev ?s) 0 0 0, flashState := 0,
       flashesPerformed := flashesPerformed ?s + 1, flashTimer := Some (offDuration ?s)\<rparr>"
    unfolding s1_def using handler_on_more [of ?s] Suc.prems(1,2) more off by simp
  let ?s1 = "s1\<lparr>flashTimer := None, flashWork := False\<rparr>"
  define s2 where "s2 = flashDisplay_handler ?s1"
  have lt: "flashesPerformed ?s1 < flashesAsked ?s1"
    using Suc.prems(4) un by (simp add: s1 word_less_nat_alt)
  have s2: "s2 = ?s1\<lparr>flashState := 1,
       rgbdev := lp5817_setColor (rgbdev ?s1) (r (pixels ?s1)) (g (pixels ?s1)) (b (pixels ?s1)),
       flashTimer := Some (onDuration ?s1)\<rparr>"
    unfolding s2_def using Suc.prems(1) lt by (intro handler_off_more) (simp_all add: s1)
  have pre: "0 < ticks (onDuration s2)" "flashState s2 \<noteq> 0" "flashTimer s2 \<noteq> None"
    "unat (flashesPerformed s2) + Suc m = unat (flashesAsked s2)"
    "m = 0 \<or> ticks (offDuration s2) \<noteq> - 1"
    using Suc.prems(1,4) un off by (simp_all add: s2 s1)
  have step: "run (cycles (2 * Suc m + 1)) s = run (cycles (2 * m + 1)) s2"
  proof -
    have "run (cycles (2 * Suc m + 1)) s = run (cycles (Suc (2 * m + 1))) s1"
      using cycle_fires [OF Suc.prems(3), of "Suc (2 * m + 1)"] by (simp add: s1_def)
    also have "\<dots> = run (cycles (2 * m + 1)) s2"
      using cycle_fires [of s1 "2 * m + 1"] by (simp add: s2_def s1)
    finally show ?thesis .
  qed
  have fields:
    "writes (rgbdev s2) = writes (rgbdev s) @ color_cmds 0 0 0 @ color_cmds (r ?px) (g ?px) (b ?px)"
    "pixels s2 = pixels s"
    by (simp_all add: s2 s1 lp5817_setColor_eq)
  show ?case
    using Suc.IH [OF pre] unfolding step by (simp add: Let_def fields)
qed

text \<open>Whatever the schedule, the work handler keeps the states of the sequence.\<close>

lemma handler_flash_inv:
  assumes "flash_inv w0 px n s"
  shows "flash_inv w0 px n (flashDisplay_handler s)"
proof (cases "0 < ticks (onDuration s)")
  case False
  then show ?thesis using assms by (simp add: flashDisplay_handler_def)
next
  case busy: True
  with assms have a: "pixels s = px" "flashesAsked s = n" "unat (flashesPerformed s) < unat n"
    by (simp_all add: flash_inv_def)
  show ?thesis
  proof (cases "flashState s = 0")
    case True
    have "flashesPerformed s < flashesAsked s" using a by (simp add: word_less_nat_alt)
    from handler_off_more [OF busy True this] assms busy True a show ?thesis
      by (simp add: flash_inv_def lp5817_setColor_eq)
  next
    case False
    from u8_succ_cases [OF a(3)] show ?thesis
    proof
      assume *: "flashesPerformed s + 1 < n \<and>
        unat (flashesPerformed s + 1) = Suc (unat (flashesPerformed s))"
      then have "flashesPerformed s + 1 < flashesAsked s \<or> flashesAsked s = 0"
        using a by simp
      from handler_on_more [OF busy False this] assms busy False a * show ?thesis
        by (simp add: flash_inv_def lp5817_setColor_eq word_less_nat_alt concat_replicate_snoc)
    next
      assume *: "\<not> flashesPerformed s + 1 < n \<and> Suc (unat (flashesPerformed s)) = unat n \<and> n \<noteq> 0"
      then have "\<not> flashesPerformed s + 1 < flashesAsked s" "flashesAsked s \<noteq> 0"
        using a by simp_all
      moreover from * have "unat n = Suc (unat (flashesPerformed s))" by simp
      ultimately show ?thesis
        using handler_on_last [OF busy False] assms busy False a
        by (simp add: flash_inv_def lp5817_setColor_eq K_NO_WAIT_def concat_replicate_snoc)
    qed
  qed
qed

lemma fire_flash_inv: "flash_inv w0 px n s \<Longrightarrow> flash_inv w0 px n (fire e s)"
proof (cases e)
  case TimerExpires
  assume "flash_inv w0 px n s"
  then show ?thesis using TimerExpires
    by (simp add: flash_inv_def flashTimerExpiry_def k_work_submit_def split: option.split)
next
  case WorkRuns
  assume inv: "flash_inv w0 px n s"
  then have "flash_inv w0 px n (s\<lparr>flashWork := False\<rparr>)" by (simp add: flash_inv_def)
  from handler_flash_inv [OF this] inv show ?thesis using WorkRuns by simp
qed

lemma run_flash_inv: "flash_inv w0 px n s \<Longrightarrow> flash_inv w0 px n (run es s)"
  by (induction es arbitrary: s) (simp_all add: fire_flash_inv)

lemma flash_flash_inv:
  "0 < ticks onDur \<Longrightarrow> n \<noteq> 0 \<Longrightarrow>
   flash_inv (writes (rgbdev rgbi)) px n (rgbi_flash rgbi px onDur offDur n)"
  by (simp add: flash_inv_def rgbi_flash_eq lp5817_setColor_eq unat_gt_0)

section \<open>Continuous sequences\<close>

lemma handler_continuous:
  "flashesAsked s = 0 \<Longrightarrow>
   flashesAsked (flashDisplay_handler s) = 0 \<and>
   onDuration (flashDisplay_handler s) = onDuration s"
  by (simp add: flashDisplay_handler_def rgbi_setColorFromPixels_def rgbi_setColor_def
      k_timer_start_eq Let_def)

lemma fire_continuous:
  "flashesAsked s = 0 \<Longrightarrow>
   flashesAsked (fire e s) = 0 \<and> onDuration (fire e s) = onDuration s"
  using handler_continuous [of "s\<lparr>flashWork := False\<rparr>"]
  by (cases e) (simp_all add: flashTimerExpiry_def k_work_submit_def split: option.split)

lemma run_continuous:
  "flashesAsked s = 0 \<Longrightarrow>
   flashesAsked (run es s) = 0 \<and> onDuration (run es s) = onDuration s"
proof (induction es arbitrary: s)
  case Nil
  then show ?case by simp
next
  case (Cons e es)
  from fire_continuous [OF Cons.prems, of e] Cons.IH [of "fire e s"]
  show ?case by simp
qed

text \<open>
  After the handler has switched a continuous sequence off (state \<open>s\<close>), every later
  state \<open>t\<close> has the transactions of \<open>s\<close>, and is \<open>s\<close> itself or has a stopped timer.
\<close>

lemma fire_off_continuous:
  assumes s: "flashesAsked s = 0" "flashState s = 0" "\<not> flashWork s"
    and t: "rgbdev t = rgbdev s \<and> flashesAsked t = 0 \<and>
      (t = s \<or> flashTimer t = None \<and> (flashWork t \<and> flashState t = 0 \<or> \<not> flashWork t))"
  shows "rgbdev (fire e t) = rgbdev s \<and> flashesAsked (fire e t) = 0 \<and>
      (fire e t = s \<or> flashTimer (fire e t) = None \<and>
        (flashWork (fire e t) \<and> flashState (fire e t) = 0 \<or> \<not> flashWork (fire e t)))"
proof (cases e)
  case TimerExpires
  with s t show ?thesis
    by (auto simp: flashTimerExpiry_def k_work_submit_def split: option.split)
next
  case WorkRuns
  show ?thesis
  proof (cases "flashWork t")
    case False
    with WorkRuns t show ?thesis by auto
  next
    case True
    with s t have *: "rgbdev t = rgbdev s" "flashesAsked t = 0" "flashTimer t = None"
      "flashState t = 0"
      by auto
    let ?t = "t\<lparr>flashWork := False\<rparr>"
    from handler_off_continuous [of ?t] *
    have "flashDisplay_handler ?t = ?t \<or> flashDisplay_handler ?t = ?t\<lparr>flashState := 1\<rparr>"
      by simp
    with WorkRuns True * show ?thesis by auto
  qed
qed

lemma run_off_continuous:
  assumes s: "flashesAsked s = 0" "flashState s = 0" "\<not> flashWork s"
  shows "rgbdev t = rgbdev s \<and> flashesAsked t = 0 \<and>
      (t = s \<or> flashTimer t = None \<and> (flashWork t \<and> flashState t = 0 \<or> \<not> flashWork t)) \<Longrightarrow>
    rgbdev (run es t) = rgbdev s \<and> (run es t = s \<or> flashTimer (run es t) = None)"
proof (induction es arbitrary: t)
  case Nil
  then show ?case by auto
next
  case (Cons e es)
  from Cons.IH [OF fire_off_continuous [OF s Cons.prems, of e]]
  show ?case by simp
qed

lemma run_append: "run (es @ es') s = run es' (run es s)"
  by (induction es arbitrary: s) simp_all

section \<open>Properties of the flash scheduler\<close>

text \<open>
  C1. A flash request with a positive on-duration and a count \<open>N > 0\<close> whose
  off-duration is not \<^verbatim>\<open>K_FOREVER\<close> (or whose count is 1, so that the off-duration
  is never used), followed by \<open>2 N - 1\<close> timer expiries each handled by the work item,
  has issued exactly \<open>N\<close> pulses: \<open>N\<close> writes of the colour and \<open>N\<close> all-zero
  writes, alternating and starting with the colour. The indicator is then idle
  (\<open>flashesAsked\<close>, \<open>flashesPerformed\<close> and \<open>onDuration\<close> are 0, \<open>rgbi_isBusy\<close> is
  false), the timer is stopped and no work is pending, so no schedule of kernel events
  changes anything any more. For every off-duration and under every schedule of kernel
  events the transactions seen so far are a whole number of pulses, at most \<open>N\<close>,
  possibly followed by the colour of the next one.
\<close>

theorem counted_flash_sequence:
  assumes "0 < ticks onDur" and "count \<noteq> 0"
  shows "(count = 1 \<or> \<not> K_TIMEOUT_EQ offDur K_FOREVER \<longrightarrow>
          (let t = run (cycles (2 * unat count - 1)) (rgbi_flash rgbi px onDur offDur count) in
            writes (rgbdev t) =
              writes (rgbdev rgbi) @ concat (replicate (unat count) (pulse_cmds px)) \<and>
            flashesAsked t = 0 \<and> flashesPerformed t = 0 \<and> onDuration t = K_NO_WAIT \<and>
            \<not> rgbi_isBusy t \<and> flashTimer t = None \<and> \<not> flashWork t \<and>
            (\<forall>es. run es t = t))) \<and>
         (\<forall>es. \<exists>j.
            (j \<le> unat count \<and>
             writes (rgbdev (run es (rgbi_flash rgbi px onDur offDur count))) =
               writes (rgbdev rgbi) @ concat (replicate j (pulse_cmds px))) \<or>
            (j < unat count \<and>
             writes (rgbdev (run es (rgbi_flash rgbi px onDur offDur count))) =
               writes (rgbdev rgbi) @ concat (replicate j (pulse_cmds px)) @
               color_cmds (r px) (g px) (b px)))"
proof (intro conjI impI)
  let ?s0 = "rgbi_flash rgbi px onDur offDur count"
  assume off: "count = 1 \<or> \<not> K_TIMEOUT_EQ offDur K_FOREVER"
  obtain m where m: "unat count = Suc m"
    using assms(2) by (cases "unat count") (simp_all add: unat_eq_0)
  have "m = 0 \<or> ticks offDur \<noteq> - 1"
    using off m by (auto simp: K_TIMEOUT_EQ_def K_FOREVER_def)
  then have pre: "0 < ticks (onDuration ?s0)" "flashState ?s0 \<noteq> 0" "flashTimer ?s0 \<noteq> None"
    "unat (flashesPerformed ?s0) + Suc m = unat (flashesAsked ?s0)"
    "m = 0 \<or> ticks (offDuration ?s0) \<noteq> - 1"
    using assms(1) m by (simp_all add: rgbi_flash_eq)
  define t where "t = run (cycles (2 * m + 1)) ?s0"
  from on_phase_run [OF pre] have t:
    "writes (rgbdev t) =
       writes (rgbdev ?s0) @ color_cmds 0 0 0 @ concat (replicate m (pulse_cmds (pixels ?s0)))"
    "flashesAsked t = 0" "flashesPerformed t = 0" "onDuration t = K_NO_WAIT"
    "flashTimer t = None" "\<not> flashWork t"
    by (simp_all add: Let_def t_def)
  have n: "2 * unat count - 1 = 2 * m + 1" using m by simp
  have w: "writes (rgbdev t) =
      writes (rgbdev rgbi) @ concat (replicate (unat count) (pulse_cmds px))"
    using t(1) by (simp add: m rgbi_flash_eq lp5817_setColor_eq)
  have "\<not> rgbi_isBusy t"
    by (simp add: rgbi_isBusy_def isFlashing_def t(4) K_NO_WAIT_def)
  moreover have "\<forall>es. run es t = t"
    using run_quiet [OF t(5,6)] by simp
  ultimately show "let t = run (cycles (2 * unat count - 1)) ?s0 in
            writes (rgbdev t) =
              writes (rgbdev rgbi) @ concat (replicate (unat count) (pulse_cmds px)) \<and>
            flashesAsked t = 0 \<and> flashesPerformed t = 0 \<and> onDuration t = K_NO_WAIT \<and>
            \<not> rgbi_isBusy t \<and> flashTimer t = None \<and> \<not> flashWork t \<and>
            (\<forall>es. run es t = t)"
    unfolding n Let_def t_def [symmetric] using w t(2-6) by simp
next
  let ?s0 = "rgbi_flash rgbi px onDur offDur count"
  show "\<forall>es. \<exists>j.
            (j \<le> unat count \<and>
             writes (rgbdev (run es ?s0)) =
               writes (rgbdev rgbi) @ concat (replicate j (pulse_cmds px))) \<or>
            (j < unat count \<and>
             writes (rgbdev (run es ?s0)) =
               writes (rgbdev rgbi) @ concat (replicate j (pulse_cmds px)) @
               color_cmds (r px) (g px) (b px))"
  proof
    fix es
    let ?t = "run es ?s0"
    have inv: "flash_inv (writes (rgbdev rgbi)) px count ?t"
      by (rule run_flash_inv [OF flash_flash_inv [OF assms]])
    show "\<exists>j.
            (j \<le> unat count \<and>
             writes (rgbdev ?t) =
               writes (rgbdev rgbi) @ concat (replicate j (pulse_cmds px))) \<or>
            (j < unat count \<and>
             writes (rgbdev ?t) =
               writes (rgbdev rgbi) @ concat (replicate j (pulse_cmds px)) @
               color_cmds (r px) (g px) (b px))"
    proof (cases "0 < ticks (onDuration ?t)")
      case False
      with inv show ?thesis
        by (intro exI [of _ "unat count"]) (simp add: flash_inv_def)
    next
      case True
      with inv show ?thesis
        by (intro exI [of _ "unat (flashesPerformed ?t)"])
          (simp add: flash_inv_def split: if_splits)
    qed
  qed
qed

text \<open>Three red flashes, 100 ticks on and 200 ticks off, on a fresh indicator.\<close>

theorem counted_flash_sequence_witness:
  "0 < ticks (K_TICKS 100) \<and> (3 :: u8) \<noteq> 0 \<and> \<not> K_TIMEOUT_EQ (K_TICKS 200) K_FOREVER \<and>
   writes (rgbdev (run (cycles 5) (rgbi_flash fresh_rgbi LED_RED (K_TICKS 100) (K_TICKS 200) 3))) =
     [[0x1a, 100], [0x18, 0], [0x19, 0], [0x1a, 0], [0x18, 0], [0x19, 0],
      [0x1a, 100], [0x18, 0], [0x19, 0], [0x1a, 0], [0x18, 0], [0x19, 0],
      [0x1a, 100], [0x18, 0], [0x19, 0], [0x1a, 0], [0x18, 0], [0x19, 0]] \<and>
   \<not> rgbi_isBusy (run (cycles 5) (rgbi_flash fresh_rgbi LED_RED (K_TICKS 100) (K_TICKS 200) 3))"
proof -
  have h: "0 < ticks (K_TICKS 100)" "(3 :: u8) \<noteq> 0"
    by (simp_all add: K_TICKS_def)
  have off: "\<not> K_TIMEOUT_EQ (K_TICKS 200) K_FOREVER"
    by (simp add: K_TIMEOUT_EQ_def K_TICKS_def K_FOREVER_def)
  have w: "writes (rgbdev fresh_rgbi) = []" "r LED_RED = 100" "g LED_RED = 0" "b LED_RED = 0"
    by (simp_all add: example_defs)
  have n: "2 * unat (3 :: u8) - 1 = 5" "unat (3 :: u8) = Suc (Suc (Suc 0))"
    by simp_all
  from counted_flash_sequence [OF h, of "K_TICKS 200" fresh_rgbi LED_RED] h off show ?thesis
    unfolding Let_def n by (simp add: w)
qed

text \<open>
  C1 without the condition on the off-duration: three red flashes with off-duration
  \<^verbatim>\<open>K_FOREVER\<close>. The first expiry switches the indicator off and the timer is not
  started again: after five expiries (and after any schedule) one pulse has been
  issued, the indicator is still busy with \<open>flashesAsked = 3\<close>, and nothing changes
  any more.
\<close>

theorem counted_flash_forever_off_counterexample:
  "0 < ticks (K_TICKS 100) \<and> (3 :: u8) \<noteq> 0 \<and>
   writes (rgbdev (run (cycles 5) (rgbi_flash fresh_rgbi LED_RED (K_TICKS 100) K_FOREVER 3))) =
     [[0x1a, 100], [0x18, 0], [0x19, 0], [0x1a, 0], [0x18, 0], [0x19, 0]] \<and>
   rgbi_isBusy (run (cycles 5) (rgbi_flash fresh_rgbi LED_RED (K_TICKS 100) K_FOREVER 3)) \<and>
   flashesAsked (run (cycles 5) (rgbi_flash fresh_rgbi LED_RED (K_TICKS 100) K_FOREVER 3)) = 3 \<and>
   (\<forall>es. run es (run (cycles 5) (rgbi_flash fresh_rgbi LED_RED (K_TICKS 100) K_FOREVER 3)) =
         run (cycles 5) (rgbi_flash fresh_rgbi LED_RED (K_TICKS 100) K_FOREVER 3))"
proof -
  let ?s0 = "rgbi_flash fresh_rgbi LED_RED (K_TICKS 100) K_FOREVER 3"
  let ?t = "run (cycles 1) ?s0"
  have t: "?t =
      ?s0\<lparr>flashTimer := None, flashWork := False,
        rgbdev := lp5817_setColor (rgbdev ?s0) 0 0 0, flashState := 0,
        flashesPerformed := 1\<rparr>"
    by (simp add: rgbi_flash_eq flashTimerExpiry_def k_work_submit_def K_TICKS_def
        K_FOREVER_def flashDisplay_handler_def rgbi_setColorFromPixels_def k_timer_start_eq)
  have quiet: "flashTimer ?t = None" "\<not> flashWork ?t"
    unfolding t by simp_all
  have stuck: "run es ?t = ?t" for es
    by (rule run_quiet [OF quiet])
  have "cycles 5 = cycles 1 @ cycles 4"
    by (simp add: eval_nat_numeral)
  then have five: "run (cycles 5) ?s0 = ?t"
    by (simp only: run_append stuck)
  have "writes (rgbdev ?t) = [[0x1a, 100], [0x18, 0], [0x19, 0], [0x1a, 0], [0x18, 0], [0x19, 0]]"
    "rgbi_isBusy ?t" "flashesAsked ?t = 3"
    unfolding t
    by (simp_all add: rgbi_flash_eq lp5817_setColor_eq example_defs rgbi_isBusy_def
        isFlashing_def)
  then show ?thesis
    unfolding five using stuck by (simp add: K_TICKS_def)
qed

text \<open>
  C3. In a continuous sequence (count 0) started with a positive on-duration, no
  schedule of timer expiries and work-item executions changes \<open>onDuration\<close>: the
  indicator stays busy. \<open>rgbi_off\<close>, \<open>rgbi_setColor\<close> and \<open>rgbi_setColorFromPixels\<close>
  leave it busy too; \<open>rgbi_cancel\<close> makes it idle.
\<close>

theorem continuous_flash_stays_busy:
  assumes "0 < ticks onDur"
  shows "(let t = run es (rgbi_flash rgbi px onDur offDur 0) in
      onDuration t = onDur \<and> rgbi_isBusy t \<and>
      rgbi_isBusy (rgbi_off t) \<and> rgbi_isBusy (rgbi_setColor t c) \<and>
      rgbi_isBusy (rgbi_setColorFromPixels t red green blue) \<and>
      \<not> rgbi_isBusy (rgbi_cancel t))"
proof -
  have "flashesAsked (rgbi_flash rgbi px onDur offDur 0) = 0"
    "onDuration (rgbi_flash rgbi px onDur offDur 0) = onDur"
    by (simp_all add: rgbi_flash_eq)
  from run_continuous [OF this(1), of es] this(2)
  have "onDuration (run es (rgbi_flash rgbi px onDur offDur 0)) = onDur" by simp
  with assms show ?thesis
    by (simp add: Let_def rgbi_isBusy_def isFlashing_def rgbi_off_def rgbi_setColor_def
        rgbi_setColorFromPixels_def rgbi_cancel_eq K_NO_WAIT_def)
qed

text \<open>A continuous green flash, 50 ticks on and off, through ten expiries.\<close>

theorem continuous_flash_stays_busy_witness:
  "0 < ticks (K_TICKS 50) \<and>
   rgbi_isBusy (run (cycles 10) (rgbi_flash fresh_rgbi LED_GREEN (K_TICKS 50) (K_TICKS 50) 0)) \<and>
   \<not> rgbi_isBusy (rgbi_cancel
       (run (cycles 10) (rgbi_flash fresh_rgbi LED_GREEN (K_TICKS 50) (K_TICKS 50) 0)))"
proof -
  have h: "0 < ticks (K_TICKS 50)" by (simp add: K_TICKS_def)
  from continuous_flash_stays_busy [OF h, of "cycles 10" fresh_rgbi LED_GREEN "K_TICKS 50"] h
  show ?thesis unfolding Let_def by blast
qed

text \<open>
  C4. In a continuous sequence (\<open>flashesAsked = 0\<close>), once the handler has entered
  the off phase (\<open>flashState = 0\<close>, the work item executed), the handler run by the
  next expiry issues no transaction and does not start the timer, because
  \<open>flashesPerformed < flashesAsked\<close> is false: under every schedule of kernel events
  the endpoint keeps the transactions it has, and every state other than the starting
  one has a stopped timer.
\<close>

theorem continuous_flash_never_turns_on_again:
  assumes "flashesAsked s = 0" and "flashState s = 0" and "\<not> flashWork s"
  shows "rgbdev (flashDisplay_handler s) = rgbdev s \<and>
         flashTimer (flashDisplay_handler s) = flashTimer s \<and>
         (\<forall>es. rgbdev (run es s) = rgbdev s \<and> (run es s = s \<or> flashTimer (run es s) = None))"
proof -
  from handler_off_continuous [OF assms(1,2)]
  have "rgbdev (flashDisplay_handler s) = rgbdev s \<and>
        flashTimer (flashDisplay_handler s) = flashTimer s"
    by auto
  moreover have "rgbdev (run es s) = rgbdev s \<and> (run es s = s \<or> flashTimer (run es s) = None)"
    for es
    by (rule run_off_continuous [OF assms]) (simp add: assms)
  ultimately show ?thesis by blast
qed

text \<open>
  The state after the first expiry of a continuous green flash is such a state; nine
  more expiries add nothing to the one pulse issued.
\<close>

theorem continuous_flash_never_turns_on_again_witness:
  "flashesAsked (run (cycles 1) (rgbi_flash fresh_rgbi LED_GREEN (K_TICKS 50) (K_TICKS 50) 0)) = 0 \<and>
   flashState (run (cycles 1) (rgbi_flash fresh_rgbi LED_GREEN (K_TICKS 50) (K_TICKS 50) 0)) = 0 \<and>
   \<not> flashWork (run (cycles 1) (rgbi_flash fresh_rgbi LED_GREEN (K_TICKS 50) (K_TICKS 50) 0)) \<and>
   writes (rgbdev (run (cycles 1 @ cycles 9)
       (rgbi_flash fresh_rgbi LED_GREEN (K_TICKS 50) (K_TICKS 50) 0))) =
     [[0x1a, 0], [0x18, 100], [0x19, 0], [0x1a, 0], [0x18, 0], [0x19, 0]]"
proof -
  let ?s0 = "rgbi_flash fresh_rgbi LED_GREEN (K_TICKS 50) (K_TICKS 50) 0"
  have s: "run (cycles 1) ?s0 =
      ?s0\<lparr>flashTimer := None, flashWork := False,
        rgbdev := lp5817_setColor (rgbdev ?s0) 0 0 0, flashState := 0,
        flashesPerformed := 1, flashTimer := Some (K_TICKS 50)\<rparr>"
    by (simp add: rgbi_flash_eq flashTimerExpiry_def k_work_submit_def K_TICKS_def
        flashDisplay_handler_def rgbi_setColorFromPixels_def k_timer_start_eq)
  have h: "flashesAsked (run (cycles 1) ?s0) = 0" "flashState (run (cycles 1) ?s0) = 0"
    "\<not> flashWork (run (cycles 1) ?s0)"
    unfolding s by (simp_all add: rgbi_flash_eq)
  have w: "writes (rgbdev (run (cycles 1) ?s0)) =
      [[0x1a, 0], [0x18, 100], [0x19, 0], [0x1a, 0], [0x18, 0], [0x19, 0]]"
    unfolding s by (simp add: rgbi_flash_eq lp5817_setColor_eq example_defs)
  from continuous_flash_never_turns_on_again [OF h] h w show ?thesis
    by (simp add: run_append)
qed

text \<open>
  C6. \<open>rgbi_cancel\<close>, in any state, stops the timer, makes the indicator idle and
  issues one all-zero colour write; afterwards no schedule of kernel events (not even
  a work item that was already pending) issues a transaction or starts the timer.
\<close>

theorem rgbi_cancel_stops_sequence:
  "flashTimer (rgbi_cancel rgbi) = None \<and> \<not> rgbi_isBusy (rgbi_cancel rgbi) \<and>
   writes (rgbdev (rgbi_cancel rgbi)) =
     writes (rgbdev rgbi) @ [[0x1a, 0], [0x18, 0], [0x19, 0]] \<and>
   (\<forall>es. rgbdev (run es (rgbi_cancel rgbi)) = rgbdev (rgbi_cancel rgbi) \<and>
         flashTimer (run es (rgbi_cancel rgbi)) = None)"
proof -
  let ?c = "rgbi_cancel rgbi"
  have idle: "\<not> isFlashing ?c" "flashTimer ?c = None"
    by (simp_all add: rgbi_cancel_eq isFlashing_def K_NO_WAIT_def)
  have "rgbdev (run es ?c) = rgbdev ?c \<and> flashTimer (run es ?c) = None" for es
    using run_idle [OF idle, of es] idle(2) by auto
  moreover have "writes (rgbdev ?c) = writes (rgbdev rgbi) @ [[0x1a, 0], [0x18, 0], [0x19, 0]]"
    by (simp add: rgbi_cancel_eq lp5817_setColor_eq)
  ultimately show ?thesis
    using idle by (simp add: rgbi_isBusy_def)
qed

text \<open>
  C9. While \<open>rgbi_isBusy\<close> is true, \<open>rgbi_off\<close> returns the indicator as it got it:
  no transaction, no field changed.
\<close>

theorem rgbi_off_while_busy:
  "rgbi_isBusy rgbi \<Longrightarrow> rgbi_off rgbi = rgbi"
  by (simp add: rgbi_off_def rgbi_isBusy_def)

theorem rgbi_off_while_busy_witness:
  "rgbi_isBusy (rgbi_flash fresh_rgbi LED_RED (K_TICKS 100) (K_TICKS 200) 3) \<and>
   rgbi_off (rgbi_flash fresh_rgbi LED_RED (K_TICKS 100) (K_TICKS 200) 3) =
     rgbi_flash fresh_rgbi LED_RED (K_TICKS 100) (K_TICKS 200) 3"
proof -
  have h: "rgbi_isBusy (rgbi_flash fresh_rgbi LED_RED (K_TICKS 100) (K_TICKS 200) 3)"
    by (simp add: rgbi_isBusy_def isFlashing_def rgbi_flash_eq K_TICKS_def)
  from rgbi_off_while_busy [OF h] h show ?thesis by simp
qed

text \<open>
  C10. A work item submitted before \<open>rgbi_cancel\<close> and executed after it finds
  \<open>onDuration = 0\<close>: the handler returns the indicator unchanged (no transaction, no
  field written, timer not started); the only effect of the execution is that the
  item is no longer pending.
\<close>

theorem stale_work_after_cancel:
  "ticks (onDuration (rgbi_cancel rgbi)) = 0 \<and>
   flashDisplay_handler (rgbi_cancel rgbi) = rgbi_cancel rgbi \<and>
   fire WorkRuns (rgbi_cancel (rgbi\<lparr>flashWork := True\<rparr>)) =
     (rgbi_cancel rgbi)\<lparr>flashWork := False\<rparr>"
  by (simp add: rgbi_cancel_eq handler_idle isFlashing_def K_NO_WAIT_def)

section \<open>Properties of the bring-up and of the colour write\<close>

text \<open>
  C8. For every triple the colour write issues exactly three transactions, red to
  register 0x1a, green to 0x18, blue to 0x19, each with the value as given; so do both
  facade functions.
\<close>

theorem color_write_path:
  "lp5817_setColor dev red green blue =
     dev\<lparr>writes := writes dev @ [[0x1a, red], [0x18, green], [0x19, blue]]\<rparr> \<and>
   rgbi_setColorFromPixels rgbi red green blue =
     rgbi\<lparr>rgbdev := (rgbdev rgbi)\<lparr>writes := writes (rgbdev rgbi) @
       [[0x1a, red], [0x18, green], [0x19, blue]]\<rparr>\<rparr> \<and>
   rgbi_setColor rgbi px =
     rgbi\<lparr>rgbdev := (rgbdev rgbi)\<lparr>writes := writes (rgbdev rgbi) @
       [[0x1a, r px], [0x18, g px], [0x19, b px]]\<rparr>\<rparr>"
  by (simp add: lp5817_setColor_eq rgbi_setColorFromPixels_def rgbi_setColor_def)

text \<open>
  C7. On a ready bus the bring-up issues exactly ten two-byte transactions, in
  this order: chip enable, maximum current, the three dot currents, output enable, the
  three intensities at zero (registers 0x1a, 0x18, 0x19), update; whatever the bus
  answers to each of them.
\<close>

theorem lp5817_init_writes:
  "ready dev \<Longrightarrow>
   writes (snd (lp5817_init dev)) =
     writes dev @
     [[0x00, 0x01], [0x01, 0x01], [0x14, 128], [0x15, 128], [0x16, 128], [0x02, 0x07],
      [0x1a, 0], [0x18, 0], [0x19, 0], [0x0f, 0x55]] \<and>
   length (writes (snd (lp5817_init dev))) = length (writes dev) + 10"
  by (simp add: lp5817_init_ready)

text \<open>The endpoint that fails the first transaction still gets all ten.\<close>

theorem lp5817_init_writes_witness:
  "ready flaky_dev \<and>
   writes (snd (lp5817_init flaky_dev)) =
     [[0x00, 0x01], [0x01, 0x01], [0x14, 128], [0x15, 128], [0x16, 128], [0x02, 0x07],
      [0x1a, 0], [0x18, 0], [0x19, 0], [0x0f, 0x55]]"
proof -
  have h: "ready flaky_dev" by (simp add: flaky_dev_def)
  have "writes flaky_dev = []" by (simp add: flaky_dev_def)
  with lp5817_init_writes [OF h] h show ?thesis by simp
qed

text \<open>C7 with the count nine: the bring-up of a ready endpoint does not issue nine.\<close>

theorem lp5817_init_nine_writes_counterexample:
  "ready good_dev \<and> writes good_dev = [] \<and>
   length (writes (snd (lp5817_init good_dev))) \<noteq> 9"
  by (simp add: lp5817_init_ready good_dev_def)

text \<open>
  C2. With a bus that is not ready \<open>lp5817_init\<close> issues no transaction, but it
  returns 0, the success code, so \<open>rgbi_init\<close> returns 0 as well and binds the
  indicator to the endpoint.
\<close>

theorem rgbi_init_bus_not_ready:
  "rgbi_init (dev\<lparr>ready := False\<rparr>) rgbi =
     (0, dev\<lparr>ready := False\<rparr>,
      rgbi\<lparr>rgbdev := dev\<lparr>ready := False\<rparr>, flashTimer := None, flashWork := False\<rparr>)"
  by (simp add: rgbi_init_def lp5817_init_not_ready k_timer_init_def k_work_init_def)

text \<open>
  C5. The bring-up goes on after a failed transaction, but its result is
  the return code of the last transaction alone: when the chip-enable write fails with
  -5 and the other nine succeed, \<open>lp5817_init\<close> and \<open>rgbi_init\<close> return 0.
\<close>

theorem lp5817_init_masks_failed_write:
  "fst (i2c_write_dt flaky_dev [0x00, 0x01]) = - 5 \<and>
   fst (lp5817_init flaky_dev) = 0 \<and>
   fst (rgbi_init flaky_dev fresh_rgbi) = 0 \<and>
   length (writes (snd (lp5817_init flaky_dev))) = 10"
  by (simp add: rgbi_init_def lp5817_init_ready i2c_write_dt_def flaky_dev_def
      k_timer_init_def k_work_init_def)

end
